theory Spec2Isabelle
  imports Complex_Main
begin

section \<open>The prefix tree of ACS\_prefix\_tree.py\<close>

text \<open>
  A \<^verbatim>\<open>SimplePrefixTree\<close> object has three attributes: \<^verbatim>\<open>root\<close>, \<^verbatim>\<open>weight\<close> and
  \<^verbatim>\<open>subtrees\<close>. The attribute \<^verbatim>\<open>root\<close> is either a list of symbols (a prefix) or a stored
  value; the engines store strings and melodies, never lists, so a value is never equal to
  a prefix. Every node is owned by exactly one parent, so the mutable object graph is a tree
  and each method is a function from the tree before the call to the tree after it.
\<close>

datatype ('s, 'v) root = Prefix "'s list" | Value 'v

datatype ('s, 'v) tree =
  Node (root_of: "('s, 'v) root") (weight: rat) (subtrees: "('s, 'v) tree list")

text \<open>
  The class is decorated with \<^verbatim>\<open>check_contracts\<close>: before the body of a method runs, the
  preconditions of its docstring that are Python expressions are evaluated, and an
  \<^verbatim>\<open>AssertionError\<close> is raised when one is false. \<^verbatim>\<open>insert\<close> documents \<^verbatim>\<open>weight > 0\<close>,
  which is modelled as this check. Its second precondition is prose. Its third,
  \<^verbatim>\<open>prefix[0:len(self.root)] == self.root\<close>, is assumed never to raise: the sample tests of
  the repository insert prefix sequences of three symbols and assert the tree that results.
\<close>

datatype error = AssertionError | TypeError | ValueError

section \<open>Weights\<close>

text \<open>
  A weight is a Python float, a binary64 number; it is modelled as the rational number it
  denotes. The sum and the difference of two floats are the exact results rounded to 53
  significant bits, to the nearest and, of two equally near, to the one with an even
  significand. The exponent is not bounded in the model: overflow to infinity and subnormal
  numbers are left out.
\<close>

definition round_half_even :: "rat \<Rightarrow> int" where
  "round_half_even y =
     (let n = \<lfloor>y\<rfloor>; d = y - of_int n
      in if d < 1 / 2 then n else if 1 / 2 < d then n + 1 else if even n then n else n + 1)"

text \<open>
  \<^verbatim>\<open>normalise n y e\<close> scales a positive \<^verbatim>\<open>y\<close> by powers of two into the interval from
  \<open>2\<^sup>5\<^sup>2\<close> (4503599627370496) to \<open>2\<^sup>5\<^sup>3\<close> (9007199254740992) and adds the exponent taken out
  to \<^verbatim>\<open>e\<close>; \<^verbatim>\<open>n\<close> bounds the number of steps. The first two cases take the larger steps
  \<open>2\<^sup>3\<^sup>2\<close> below \<open>2\<^sup>2\<^sup>0\<close> and \<open>2\<^sup>8\<close> below \<open>2\<^sup>4\<^sup>4\<close>.
\<close>

fun normalise :: "nat \<Rightarrow> rat \<Rightarrow> int \<Rightarrow> rat \<times> int" where
  "normalise 0 y e = (y, e)"
| "normalise (Suc n) y e =
     (if y < 1048576 then normalise n (4294967296 * y) (e - 32)
      else if y < 17592186044416 then normalise n (256 * y) (e - 8)
      else if y < 4503599627370496 then normalise n (2 * y) (e - 1)
      else if 9007199254740992 \<le> y then normalise n (y / 2) (e + 1)
      else (y, e))"

definition scale :: "rat \<Rightarrow> int \<Rightarrow> rat" where
  "scale y e = (if 0 \<le> e then y * 2 ^ nat e else y / 2 ^ nat (- e))"

definition fl :: "rat \<Rightarrow> rat" where
  "fl x =
     (if x = 0 then 0
      else (let (y, e) = normalise 1200 \<bar>x\<bar> 0
            in sgn x * scale (of_int (round_half_even y)) e))"

definition fadd :: "rat \<Rightarrow> rat \<Rightarrow> rat" where
  "fadd x y = fl (x + y)"

definition fsub :: "rat \<Rightarrow> rat \<Rightarrow> rat" where
  "fsub x y = fl (x - y)"

section \<open>The methods\<close>

text \<open>\<^verbatim>\<open>__init__\<close>: root \<^verbatim>\<open>[]\<close>, no subtrees, weight \<^verbatim>\<open>0.0\<close>.\<close>

definition empty_tree :: "('s, 'v) tree" where
  "empty_tree = Node (Prefix []) 0 []"

definition is_empty_tree :: "('s, 'v) tree \<Rightarrow> bool" where
  "is_empty_tree t \<longleftrightarrow> weight t = 0"

definition is_leaf :: "('s, 'v) tree \<Rightarrow> bool" where
  "is_leaf t \<longleftrightarrow> subtrees t = [] \<and> weight t > 0"

fun len :: "('s, 'v) tree \<Rightarrow> nat" where
  "len (Node r w ts) =
     (if is_empty_tree (Node r w ts) then 0
      else if is_leaf (Node r w ts) then 1
      else sum_list (map len ts))"

text \<open>
  \<^verbatim>\<open>create_node\<close> computes \<^verbatim>\<open>initial + value\<close>: list concatenation when the receiver's root
  is a prefix, a \<^verbatim>\<open>TypeError\<close> when it is a stored value.
\<close>

fun create_node :: "('s, 'v) root \<Rightarrow> 's list \<Rightarrow> rat \<Rightarrow> error + ('s, 'v) tree" where
  "create_node (Prefix p) value w = Inr (Node (Prefix (p @ value)) w [])"
| "create_node (Value v) value w = Inl TypeError"

definition get_subtree_roots :: "('s, 'v) tree list \<Rightarrow> ('s, 'v) root list" where
  "get_subtree_roots ts = map root_of ts"

fun get_leaf_value :: "('s, 'v) tree \<Rightarrow> ('s, 'v) root list" where
  "get_leaf_value (Node r w ts) =
     (if is_empty_tree (Node r w ts) then []
      else if is_leaf (Node r w ts) then [r]
      else concat (map get_leaf_value ts))"

fun get_leaves :: "('s, 'v) tree \<Rightarrow> ('s, 'v) tree list" where
  "get_leaves (Node r w ts) =
     (if is_empty_tree (Node r w ts) then []
      else if is_leaf (Node r w ts) then [Node r w ts]
      else concat (map get_leaves ts))"

text \<open>
  \<^verbatim>\<open>list.sort(key=..., reverse=True)\<close> is stable: elements with equal keys keep their
  order. A stable ascending sort on the negated key is the same permutation.
\<close>

definition sort_subtrees :: "('s, 'v) tree list \<Rightarrow> ('s, 'v) tree list" where
  "sort_subtrees ts = sort_key (\<lambda>sub_tree. - weight sub_tree) ts"

definition sort_pairs :: "('a \<times> rat) list \<Rightarrow> ('a \<times> rat) list" where
  "sort_pairs lst = sort_key (\<lambda>tup. - snd tup) lst"

text \<open>\<^verbatim>\<open>list.index\<close>: the first position of an element, \<^verbatim>\<open>ValueError\<close> when absent.\<close>

fun index_of :: "'a \<Rightarrow> 'a list \<Rightarrow> nat option" where
  "index_of x [] = None"
| "index_of x (y # ys) =
     (if x = y then Some 0 else map_option Suc (index_of x ys))"

text \<open>
  The loop of \<^verbatim>\<open>insert\<close> over \<^verbatim>\<open>self.subtrees\<close> for a value already present: every
  subtree whose root equals the value gains the weight, and so does the receiver, once per
  such subtree. The second component is the receiver's weight.
\<close>

fun add_to_matching ::
  "('s, 'v) root \<Rightarrow> rat \<Rightarrow> ('s, 'v) tree list \<Rightarrow> rat \<Rightarrow> ('s, 'v) tree list \<times> rat" where
  "add_to_matching r w [] sw = ([], sw)"
| "add_to_matching r w (c # cs) sw =
     (if root_of c = r
      then (let (cs', sw') = add_to_matching r w cs (fadd sw w)
            in (Node (root_of c) (fadd (weight c) w) (subtrees c) # cs', sw'))
      else (let (cs', sw') = add_to_matching r w cs sw in (c # cs', sw')))"

text \<open>
  \<^verbatim>\<open>insert\<close>, with the receiver after the call. The first component is the exception the
  call raises, if any. The contract check comes first, in every call, also the recursive
  ones. When a recursive call raises, the call ends there: the receiver keeps what was
  assigned before and its subtrees are not sorted.
\<close>

fun insert_st ::
  "'v \<Rightarrow> rat \<Rightarrow> 's list \<Rightarrow> ('s, 'v) tree \<Rightarrow> error option \<times> ('s, 'v) tree" where
  "insert_st v w [] t =
     (if \<not> 0 < w then (Some AssertionError, t)
      else if subtrees t = []
      then (None, Node (root_of t) w (sort_subtrees [Node (Value v) w []]))
      else if Value v \<notin> set (get_leaf_value t)
      then (None, Node (root_of t) (fadd (weight t) w)
                    (sort_subtrees (subtrees t @ [Node (Value v) w []])))
      else (let (cs, sw) = add_to_matching (Value v) w (subtrees t) (weight t)
            in (None, Node (root_of t) sw (sort_subtrees cs))))"
| "insert_st v w (s # ps) t =
     (if \<not> 0 < w then (Some AssertionError, t)
      else case create_node (root_of t) [s] w of
        Inl e \<Rightarrow> (Some e, t)
      | Inr node \<Rightarrow>
          if root_of node \<notin> set (get_subtree_roots (subtrees t))
          then (let subs = subtrees t @ [node];
                    sw = (if length subs \<le> 1 then w else fadd (weight t) w)
                in case insert_st v w ps (last subs) of
                     (Some e, c) \<Rightarrow> (Some e, Node (root_of t) sw (butlast subs @ [c]))
                   | (None, c) \<Rightarrow>
                       (None, Node (root_of t) sw (sort_subtrees (butlast subs @ [c]))))
          else (let sw = fadd (weight t) w
                in case index_of (root_of node) (get_subtree_roots (subtrees t)) of
                     None \<Rightarrow> (Some ValueError, Node (root_of t) sw (subtrees t))
                   | Some i \<Rightarrow>
                       (case insert_st v w ps (subtrees t ! i) of
                          (Some e, c) \<Rightarrow> (Some e, Node (root_of t) sw ((subtrees t)[i := c]))
                        | (None, c) \<Rightarrow>
                            (None, Node (root_of t) sw
                                     (sort_subtrees ((subtrees t)[i := c]))))))"

text \<open>The outcome of a call of \<^verbatim>\<open>insert\<close>: the exception raised, or the tree after it.\<close>

definition insert_tree ::
  "'v \<Rightarrow> rat \<Rightarrow> 's list \<Rightarrow> ('s, 'v) tree \<Rightarrow> error + ('s, 'v) tree" where
  "insert_tree v w p t =
     (case insert_st v w p t of (Some e, t') \<Rightarrow> Inl e | (None, t') \<Rightarrow> Inr t')"

text \<open>
  \<^verbatim>\<open>remove\<close> iterates over \<^verbatim>\<open>self.subtrees\<close> while deleting from it: after a subtree
  at position i has been deleted the list has shifted, and the iterator goes on at position
  i + 1, so the subtree that followed the deleted one is not visited. The receiver's weight
  is reduced only by the former weight of a subtree that became empty.
\<close>

fun remove_tree :: "'s list \<Rightarrow> ('s, 'v) tree \<Rightarrow> ('s, 'v) tree"
  and remove_loop ::
    "'s list \<Rightarrow> ('s, 'v) tree list \<Rightarrow> rat \<Rightarrow> ('s, 'v) tree list \<times> rat" where
  "remove_tree p (Node r w ts) =
     (if p = [] then Node (Prefix []) 0 []
      else if r = Prefix p then Node (Prefix []) 0 []
      else (let (ts', w') = remove_loop p ts w in Node r w' ts'))"
| "remove_loop p [] w = ([], w)"
| "remove_loop p [c] w =
     (let c' = remove_tree p c
      in if is_empty_tree c' then ([], fsub w (weight c)) else ([c'], w))"
| "remove_loop p (c # d # ds) w =
     (let c' = remove_tree p c
      in if is_empty_tree c'
         then (let (rs, w') = remove_loop p ds (fsub w (weight c)) in (d # rs, w'))
         else (let (rs, w') = remove_loop p (d # ds) w in (c' # rs, w')))"

text \<open>
  \<^verbatim>\<open>autocomplete\<close> returns the list of matches. The method is modelled together with the
  receiver after the call, every recursive call handing back the subtree it was called on.
\<close>

definition leaf_pair :: "('s, 'v) tree \<Rightarrow> ('s, 'v) root \<times> rat" where
  "leaf_pair leaf = (root_of leaf, weight leaf)"

fun autocomplete_st ::
  "'s list \<Rightarrow> int option \<Rightarrow> ('s, 'v) tree \<Rightarrow> (('s, 'v) root \<times> rat) list \<times> ('s, 'v) tree"
  and autocomplete_loop ::
  "'s list \<Rightarrow> int option \<Rightarrow> ('s, 'v) tree list
     \<Rightarrow> (('s, 'v) root \<times> rat) list \<times> ('s, 'v) tree list" where
  "autocomplete_st p limit (Node r w ts) =
     (case limit of
        None \<Rightarrow>
          if r = Prefix p
          then (sort_pairs (map leaf_pair (get_leaves (Node r w ts))), Node r w ts)
          else (let (lst, ts') = autocomplete_loop p limit ts in (lst, Node r w ts'))
      | Some n \<Rightarrow>
          if r = Prefix p
          then (let leaves = get_leaves (Node r w ts)
                in (map (\<lambda>i. leaf_pair (leaves ! i))
                      [0 ..< nat (min n (int (length leaves)))], Node r w ts))
          else (let (lst, ts') = autocomplete_loop p limit ts in (lst, Node r w ts')))"
| "autocomplete_loop p limit [] = ([], [])"
| "autocomplete_loop p limit (c # cs) =
     (let (l1, c') = autocomplete_st p limit c;
          (l2, cs') = autocomplete_loop p limit cs
      in (l1 @ l2, c' # cs'))"

definition autocomplete ::
  "'s list \<Rightarrow> int option \<Rightarrow> ('s, 'v) tree \<Rightarrow> (('s, 'v) root \<times> rat) list" where
  "autocomplete p limit t = fst (autocomplete_st p limit t)"

text \<open>
  \<^verbatim>\<open>CompressedPrefixTree\<close> is a subclass of \<^verbatim>\<open>SimplePrefixTree\<close> whose body declares one
  type annotation and no method: every call on it resolves to the methods above.
\<close>

definition compressed_insert ::
  "'v \<Rightarrow> rat \<Rightarrow> 's list \<Rightarrow> ('s, 'v) tree \<Rightarrow> error + ('s, 'v) tree" where
  "compressed_insert = insert_tree"

section \<open>Sequences of calls\<close>

text \<open>A call on the result of the calls before it; an exception ends the sequence.\<close>

definition then_insert ::
  "'v \<Rightarrow> rat \<Rightarrow> 's list \<Rightarrow> error + ('s, 'v) tree \<Rightarrow> error + ('s, 'v) tree" where
  "then_insert v w p r = (case r of Inl e \<Rightarrow> Inl e | Inr t \<Rightarrow> insert_tree v w p t)"

definition then_remove :: "'s list \<Rightarrow> error + ('s, 'v) tree \<Rightarrow> error + ('s, 'v) tree" where
  "then_remove p r = (case r of Inl e \<Rightarrow> Inl e | Inr t \<Rightarrow> Inr (remove_tree p t))"

text \<open>The three insertions of the sample tests, in the order cat, car, dog.\<close>

definition cat_car_dog :: "error + (char, string) tree" where
  "cat_car_dog =
     then_insert ''dog'' 4 ''dog''
       (then_insert ''car'' 3 ''car'' (then_insert ''cat'' 2 ''cat'' (Inr empty_tree)))"

text \<open>The same insertions in the order dog, cat, car.\<close>

definition dog_cat_car :: "error + (char, string) tree" where
  "dog_cat_car =
     then_insert ''car'' 3 ''car''
       (then_insert ''cat'' 2 ''cat'' (then_insert ''dog'' 4 ''dog'' (Inr empty_tree)))"

section \<open>Representation invariants\<close>

text \<open>
  The class docstring: in a non-empty tree that is not a leaf, the weight is the total of
  the weights below it; here, of the weights of its subtrees, at every node.
\<close>

fun weight_sum_ok :: "('s, 'v) tree \<Rightarrow> bool" where
  "weight_sum_ok (Node r w ts) =
     ((is_empty_tree (Node r w ts) \<or> is_leaf (Node r w ts) \<or> w = sum_list (map weight ts))
      \<and> list_all weight_sum_ok ts)"

text \<open>The class docstring: \<^verbatim>\<open>self.subtrees\<close> is sorted in non-increasing order of weight.\<close>

fun subtrees_sorted :: "('s, 'v) tree \<Rightarrow> bool" where
  "subtrees_sorted (Node r w ts) =
     (sorted_wrt (\<lambda>a b. weight a \<ge> weight b) ts \<and> list_all subtrees_sorted ts)"

text \<open>
  A compressible node is a non-empty tree that is not a leaf and has exactly one subtree;
  the compressed tree's docstring excludes them below the root.
\<close>

definition compressible :: "('s, 'v) tree \<Rightarrow> bool" where
  "compressible t \<longleftrightarrow> \<not> is_empty_tree t \<and> \<not> is_leaf t \<and> length (subtrees t) = 1"

fun no_compressible :: "('s, 'v) tree \<Rightarrow> bool" where
  "no_compressible (Node r w ts) =
     list_all (\<lambda>c. \<not> compressible c \<and> no_compressible c) ts"

section \<open>The values stored\<close>

text \<open>
  The values stored after a sequence of calls, each with the prefix sequence it was inserted
  with. \<^verbatim>\<open>remove(prefix)\<close> takes out every value whose prefix sequence begins with the
  given one.
\<close>

definition forget :: "'s list \<Rightarrow> ('v \<rightharpoonup> 's list) \<Rightarrow> ('v \<rightharpoonup> 's list)" where
  "forget p m =
     (\<lambda>v. case m v of
             None \<Rightarrow> None
           | Some q \<Rightarrow> if take (length p) q = p then None else Some q)"

section \<open>The sample scenarios\<close>

lemma cat_car_dog_eq:
  "cat_car_dog =
     Inr (Node (Prefix []) 9
       [Node (Prefix ''c'') 5
         [Node (Prefix ''ca'') 5
           [Node (Prefix ''car'') 3 [Node (Value ''car'') 3 []],
            Node (Prefix ''cat'') 2 [Node (Value ''cat'') 2 []]]],
        Node (Prefix ''d'') 4
         [Node (Prefix ''do'') 4
           [Node (Prefix ''dog'') 4 [Node (Value ''dog'') 4 []]]]])"
  by code_simp

text \<open>
  C6. After the insertions of cat (2.0), car (3.0) and dog (4.0), \<^verbatim>\<open>remove(['c','a'])\<close>
  deletes cat and car: the only leaf value left is dog, the tree has length 1, the root's
  weight is 4.0 and its only subtree has root \<^verbatim>\<open>['d']\<close>.
\<close>

theorem C6_remove_scenario:
  "then_remove ''ca'' cat_car_dog =
     Inr (Node (Prefix []) 4
       [Node (Prefix ''d'') 4
         [Node (Prefix ''do'') 4
           [Node (Prefix ''dog'') 4 [Node (Value ''dog'') 4 []]]]])
   \<and> map_sum id len (then_remove ''ca'' cat_car_dog) = Inr 1
   \<and> map_sum id weight (then_remove ''ca'' cat_car_dog) = Inr 4
   \<and> map_sum id (get_subtree_roots \<circ> subtrees) (then_remove ''ca'' cat_car_dog)
       = Inr [Prefix ''d'']
   \<and> map_sum id get_leaf_value (then_remove ''ca'' cat_car_dog) = Inr [Value ''dog'']"
  by code_simp

section \<open>Calls that break a representation invariant\<close>

text \<open>
  C1 (weight of a node is the sum of the weights of its subtrees). After the insertions of
  cat (2.0, c-a-t) and cow (3.0, c-o-w), \<^verbatim>\<open>remove(['c','a'])\<close> empties the subtree of
  \<^verbatim>\<open>['c','a']\<close> and reduces the weight of its parent \<^verbatim>\<open>['c']\<close> to 3.0; the parent is not
  empty, so the root keeps its weight 5.0 although its only subtree now weighs 3.0.
\<close>

theorem C1_remove_leaves_stale_weight:
  "then_remove ''ca''
     (then_insert ''cow'' 3 ''cow'' (then_insert ''cat'' 2 ''cat'' (Inr empty_tree)))
   = Inr (Node (Prefix []) 5
       [Node (Prefix ''c'') 3
         [Node (Prefix ''co'') 3 [Node (Prefix ''cow'') 3 [Node (Value ''cow'') 3 []]]]])
   \<and> \<not> weight_sum_ok (Node (Prefix []) 5
       [Node (Prefix ''c'') 3
         [Node (Prefix ''co'') 3 [Node (Prefix ''cow'') 3 [Node (Value ''cow'') 3 []]]]]
       :: (char, string) tree)"
  by code_simp

text \<open>
  C5 (subtrees sorted by non-increasing weight). After the insertions of cat (2.0), cow (3.0)
  and dog (4.0), \<^verbatim>\<open>remove(['c','o'])\<close> reduces the weight of the subtree \<^verbatim>\<open>['c']\<close> from 5.0
  to 2.0 and does not sort: the root's subtrees weigh 2.0 and 4.0, in this order.
\<close>

theorem C5_remove_leaves_subtrees_unsorted:
  "then_remove ''co''
     (then_insert ''dog'' 4 ''dog''
       (then_insert ''cow'' 3 ''cow'' (then_insert ''cat'' 2 ''cat'' (Inr empty_tree))))
   = Inr (Node (Prefix []) 9
       [Node (Prefix ''c'') 2
         [Node (Prefix ''ca'') 2 [Node (Prefix ''cat'') 2 [Node (Value ''cat'') 2 []]]],
        Node (Prefix ''d'') 4
         [Node (Prefix ''do'') 4 [Node (Prefix ''dog'') 4 [Node (Value ''dog'') 4 []]]]])
   \<and> \<not> subtrees_sorted (Node (Prefix []) 9
       [Node (Prefix ''c'') 2
         [Node (Prefix ''ca'') 2 [Node (Prefix ''cat'') 2 [Node (Value ''cat'') 2 []]]],
        Node (Prefix ''d'') 4
         [Node (Prefix ''do'') 4 [Node (Prefix ''dog'') 4 [Node (Value ''dog'') 4 []]]]]
       :: (char, string) tree)"
  by code_simp

text \<open>
  C2 (no compressible node below the root of a compressed tree). One insertion of cat
  (2.0, c-a-t) into an empty compressed tree builds the chain of the simple tree: the nodes
  \<^verbatim>\<open>['c']\<close>, \<^verbatim>\<open>['c','a']\<close> and \<^verbatim>\<open>['c','a','t']\<close> have one subtree each.
\<close>

theorem C2_compressed_insert_builds_chain:
  "compressed_insert ''cat'' 2 ''cat'' empty_tree
   = Inr (Node (Prefix []) 2
       [Node (Prefix ''c'') 2
         [Node (Prefix ''ca'') 2 [Node (Prefix ''cat'') 2 [Node (Value ''cat'') 2 []]]]])
   \<and> \<not> no_compressible (Node (Prefix []) 2
       [Node (Prefix ''c'') 2
         [Node (Prefix ''ca'') 2 [Node (Prefix ''cat'') 2 [Node (Value ''cat'') 2 []]]]]
       :: (char, string) tree)"
  by code_simp

text \<open>
  C9 (removing a prefix that no stored value begins with changes nothing). After the
  insertions of bat (2.0) and bad (3.0) and the removal of both, by \<^verbatim>\<open>remove(['b','a','t'])\<close>
  and \<^verbatim>\<open>remove(['b','a','d'])\<close>, no value is stored, but the node \<^verbatim>\<open>['b']\<close> is still in
  the tree with weight 2.0 and no subtrees, and the tree has length 1. Then
  \<^verbatim>\<open>remove(['b'])\<close> deletes that node and reduces the root's weight from 5.0 to 3.0.
\<close>

theorem C9_remove_of_unstored_prefix_changes_tree:
  "then_remove ''bad'' (then_remove ''bat''
     (then_insert ''bad'' 3 ''bad'' (then_insert ''bat'' 2 ''bat'' (Inr empty_tree))))
   = Inr (Node (Prefix []) 5 [Node (Prefix ''b'') 2 []])
   \<and> forget ''bad'' (forget ''bat'' [''bat'' \<mapsto> ''bat'', ''bad'' \<mapsto> ''bad'']) ''bat'' = None
   \<and> forget ''bad'' (forget ''bat'' [''bat'' \<mapsto> ''bat'', ''bad'' \<mapsto> ''bad'']) ''bad'' = None
   \<and> len (Node (Prefix []) 5 [Node (Prefix ''b'') 2 []] :: (char, string) tree) = 1
   \<and> remove_tree ''b'' (Node (Prefix []) 5 [Node (Prefix ''b'') 2 []] :: (char, string) tree)
       = Node (Prefix []) 3 []"
  by (simp add: forget_def) code_simp

section \<open>autocomplete reads the tree\<close>

lemma autocomplete_st_receiver:
  "snd (autocomplete_st p limit (t :: ('s, 'v) tree)) = t"
  "snd (autocomplete_loop p limit (ts :: ('s, 'v) tree list)) = ts"
  by (induction p limit t and p limit ts rule: autocomplete_st_autocomplete_loop.induct)
     (auto simp: Let_def simp del: get_leaves.simps split: option.splits prod.splits)

lemma autocomplete_loop_concat:
  "fst (autocomplete_loop p limit ts) = concat (map (autocomplete p limit) ts)"
  by (induction ts) (auto simp: autocomplete_def split: prod.splits)

lemma autocomplete_Node:
  "autocomplete p limit (Node r w ts) =
     (if r = Prefix p
      then (case limit of
              None \<Rightarrow> sort_pairs (map leaf_pair (get_leaves (Node r w ts)))
            | Some n \<Rightarrow> map (\<lambda>i. leaf_pair (get_leaves (Node r w ts) ! i))
                         [0 ..< nat (min n (int (length (get_leaves (Node r w ts)))))])
      else concat (map (autocomplete p limit) ts))"
  using autocomplete_loop_concat [of p limit ts]
  by (auto simp: autocomplete_def Let_def simp del: get_leaves.simps
           split: option.splits prod.splits)

text \<open>
  C10. For every tree, every prefix sequence and every limit, \<^verbatim>\<open>autocomplete\<close> returns its
  list of matches and leaves the receiver as it was: same root, weight and subtrees at
  every node.
\<close>

theorem C10_autocomplete_leaves_tree_unchanged:
  "autocomplete_st p limit t = (autocomplete p limit t, t)"
  by (simp add: autocomplete_def autocomplete_st_receiver prod_eq_iff)

section \<open>insert checks its weight\<close>

text \<open>
  C8. For every tree, every value and every prefix sequence, a call of \<^verbatim>\<open>insert\<close> with a
  weight that is zero or negative raises and leaves the receiver as it was: same root,
  weight and subtrees at every node. The exception is the \<^verbatim>\<open>AssertionError\<close> of the
  contract check of \<^verbatim>\<open>weight > 0\<close>; the specification names this failure InvalidWeight.
\<close>

theorem C8_insert_rejects_nonpositive_weight:
  "w \<le> 0 \<Longrightarrow>
   insert_st v w p t = (Some AssertionError, t) \<and> insert_tree v w p t = Inl AssertionError"
  by (cases p) (simp_all add: insert_tree_def)

theorem C8_witness:
  "(- 1 :: rat) \<le> 0
   \<and> insert_st ''x'' (- 1) ''ab'' (Node (Prefix []) 2 [Node (Value ''y'') 2 []])
       = (Some AssertionError, Node (Prefix []) 2 [Node (Value ''y'') 2 []])
   \<and> insert_tree ''x'' (- 1) ''ab'' (Node (Prefix []) 2 [Node (Value ''y'') 2 []])
       = Inl AssertionError"
  using C8_insert_rejects_nonpositive_weight
    [of "- 1" "''x''" "''ab''" "Node (Prefix []) 2 [Node (Value ''y'') 2 []]"]
  by simp

text \<open>With a positive weight, a call on a tree whose root is a prefix raises nothing.\<close>

lemma index_of_mem: "x \<in> set xs \<Longrightarrow> \<exists>i. index_of x xs = Some i"
  by (induction xs) auto

lemma index_of_root:
  "index_of r (map root_of ts) = Some i \<Longrightarrow> root_of (ts ! i) = r"
proof (induction ts arbitrary: i)
  case Nil
  then show ?case by simp
next
  case (Cons c cs)
  then show ?case by (cases "r = root_of c") auto
qed

lemma insert_st_returns:
  "0 < w \<Longrightarrow> root_of t = Prefix q \<Longrightarrow> fst (insert_st v w p t) = None"
proof (induction p arbitrary: t q)
  case Nil
  then show ?case by (simp add: case_prod_beta)
next
  case (Cons s ps)
  let ?r = "Prefix (q @ [s]) :: ('a, 'b) root"
  show ?case
  proof (cases "?r \<in> set (get_subtree_roots (subtrees t))")
    case False
    have "fst (insert_st v w ps (Node ?r w [])) = None"
      using Cons.prems(1) by (rule Cons.IH [of _ "q @ [s]"]) simp
    with False Cons.prems show ?thesis
      by (auto simp: Let_def split: prod.splits option.splits)
  next
    case True
    then obtain i where i: "index_of ?r (get_subtree_roots (subtrees t)) = Some i"
      using index_of_mem by fastforce
    then have "root_of (subtrees t ! i) = ?r"
      unfolding get_subtree_roots_def by (rule index_of_root)
    from Cons.IH [OF Cons.prems(1) this] have "fst (insert_st v w ps (subtrees t ! i)) = None" .
    with True i Cons.prems show ?thesis
      by (auto simp: Let_def split: prod.splits option.splits)
  qed
qed

section \<open>What autocomplete returns after remove\<close>

text \<open>
  The sample tests: after the insertions of dog (4.0), cat (2.0) and car (3.0),
  \<^verbatim>\<open>autocomplete([])\<close> returns dog, car and cat, and after the insertions of cat, car and
  dog, \<^verbatim>\<open>autocomplete([], 1)\<close> returns car.
\<close>

lemma autocomplete_sample_without_limit:
  "map_sum id (autocomplete [] None) dog_cat_car
     = Inr [(Value ''dog'', 4), (Value ''car'', 3), (Value ''cat'', 2)]"
  by code_simp

lemma autocomplete_sample_with_limit:
  "map_sum id (autocomplete [] (Some 1)) cat_car_dog = Inr [(Value ''car'', 3)]"
  by code_simp

text \<open>
  C3 (without a limit, the pairs of all leaves matching the prefix). After the insertions
  of bat (2.0) and bad (3.0) and the removal of both, by \<^verbatim>\<open>remove(['b','a','t'])\<close> and
  \<^verbatim>\<open>remove(['b','a','d'])\<close>, no value is stored, but \<^verbatim>\<open>autocomplete([], None)\<close> and
  \<^verbatim>\<open>autocomplete(['b'], None)\<close> return one pair: the prefix \<^verbatim>\<open>['b']\<close> with the weight
  2.0 that \<^verbatim>\<open>remove\<close> left on its node.
\<close>

theorem C3_autocomplete_returns_leftover_node:
  "then_remove ''bad'' (then_remove ''bat''
     (then_insert ''bad'' 3 ''bad'' (then_insert ''bat'' 2 ''bat'' (Inr empty_tree))))
   = Inr (Node (Prefix []) 5 [Node (Prefix ''b'') 2 []])
   \<and> forget ''bad'' (forget ''bat'' [''bat'' \<mapsto> ''bat'', ''bad'' \<mapsto> ''bad'']) ''bat'' = None
   \<and> forget ''bad'' (forget ''bat'' [''bat'' \<mapsto> ''bat'', ''bad'' \<mapsto> ''bad'']) ''bad'' = None
   \<and> autocomplete [] None (Node (Prefix []) 5 [Node (Prefix ''b'') 2 []] :: (char, string) tree)
       = [(Prefix ''b'', 2)]
   \<and> autocomplete ''b'' None (Node (Prefix []) 5 [Node (Prefix ''b'') 2 []] :: (char, string) tree)
       = [(Prefix ''b'', 2)]"
  by (simp add: forget_def) code_simp

text \<open>
  C4 (with a limit, the first leaves of a traversal that visits subtrees by descending
  weight). After the insertions of cat (2.0), cow (3.0) and dog (4.0) and
  \<^verbatim>\<open>remove(['c','o'])\<close>, the root's subtrees are stored in the order \<^verbatim>\<open>['c']\<close> (2.0),
  \<^verbatim>\<open>['d']\<close> (4.0), and \<^verbatim>\<open>autocomplete([], 1)\<close> returns cat from the lighter subtree, which
  it visits first.
\<close>

theorem C4_autocomplete_visits_lighter_subtree_first:
  "then_remove ''co''
     (then_insert ''dog'' 4 ''dog''
       (then_insert ''cow'' 3 ''cow'' (then_insert ''cat'' 2 ''cat'' (Inr empty_tree))))
   = Inr (Node (Prefix []) 9
       [Node (Prefix ''c'') 2
         [Node (Prefix ''ca'') 2 [Node (Prefix ''cat'') 2 [Node (Value ''cat'') 2 []]]],
        Node (Prefix ''d'') 4
         [Node (Prefix ''do'') 4 [Node (Prefix ''dog'') 4 [Node (Value ''dog'') 4 []]]]])
   \<and> autocomplete [] (Some 1) (Node (Prefix []) 9
       [Node (Prefix ''c'') 2
         [Node (Prefix ''ca'') 2 [Node (Prefix ''cat'') 2 [Node (Value ''cat'') 2 []]]],
        Node (Prefix ''d'') 4
         [Node (Prefix ''do'') 4 [Node (Prefix ''dog'') 4 [Node (Value ''dog'') 4 []]]]]
       :: (char, string) tree)
     = [(Value ''cat'', 2)]"
  by code_simp

section \<open>Inserting a stored value again\<close>

text \<open>
  The sample test of the sentence engine: a value inserted twice with the same prefix
  sequence and the weights 15.0 and 6.5 is returned with the weight 21.5.
\<close>

lemma insert_twice_sample:
  "map_sum id (autocomplete [''a''] None)
     (then_insert ''a star is born'' (13 / 2) [''a'', ''star'', ''is'', ''born'']
       (then_insert ''a star is born'' 15 [''a'', ''star'', ''is'', ''born'']
         (Inr empty_tree)))
   = Inr [(Value ''a star is born'', 43 / 2)]"
  by code_simp

text \<open>
  C7 (inserting a stored value again adds to its leaf and makes no second leaf). The float
  sum of 1e16 and 1.0 is 1e16. After \<^verbatim>\<open>insert('big', 1e16, ['a'])\<close>,
  \<^verbatim>\<open>insert('small', 1.0, [])\<close> and \<^verbatim>\<open>remove(['a'])\<close> the root therefore has the weight
  0.0 while the leaf of small is still its subtree. The root counts as empty, so
  \<^verbatim>\<open>get_leaf_value\<close> returns no value, and \<^verbatim>\<open>insert('small', 1.0, [])\<close> appends a second
  leaf of weight 1.0 instead of raising the weight of the first to 2.0.
\<close>

theorem C7_insert_again_appends_second_leaf:
  "fadd 10000000000000000 1 = 10000000000000000
   \<and> then_remove ''a''
       (then_insert ''small'' 1 []
         (then_insert ''big'' 10000000000000000 ''a'' (Inr empty_tree)))
     = Inr (Node (Prefix []) 0 [Node (Value ''small'') 1 []])
   \<and> get_leaf_value (Node (Prefix []) 0 [Node (Value ''small'') 1 []] :: (char, string) tree)
     = []
   \<and> insert_tree ''small'' 1 [] (Node (Prefix []) 0 [Node (Value ''small'') 1 []]
       :: (char, string) tree)
     = Inr (Node (Prefix []) 1 [Node (Value ''small'') 1 [], Node (Value ''small'') 1 []])"
  by code_simp

end
